theory Spec2Isabelle
  imports Complex_Main "HOL-Library.Option_ord" "HOL-Library.Multiset"
begin

section \<open>Python values and the library functions the store relies on\<close>

text \<open>
  The store (\<^verbatim>\<open>history.py\<close>) keeps three SQLite tables and hands gateway responses and
  payloads around as untyped Python documents. A document is modelled by \<open>pyval\<close>: the
  values \<^verbatim>\<open>json.loads\<close> can produce. A dict is an association list in insertion order, as
  Python dicts are.

  Numbers: a Python \<^verbatim>\<open>float\<close> and an SQLite \<^verbatim>\<open>REAL\<close> are modelled by the rational they
  denote, and arithmetic on them is exact. Rounding, infinities, NaN and the overflow of
  \<^verbatim>\<open>float\<close> on a very large \<^verbatim>\<open>int\<close> are outside this model.
\<close>

datatype pyval =
    PNone
  | PBool bool
  | PInt int
  | PFloat rat
  | PStr string
  | PList "pyval list"
  | PDict "(string \<times> pyval) list"

datatype exn = AttributeError | TypeError | GatewayError

text \<open>
  The functions of the Python runtime that the code calls and that are not part of the
  repository are parameters of the model: \<^verbatim>\<open>json.loads\<close> (\<open>None\<close> when it raises
  \<^verbatim>\<open>JSONDecodeError\<close>), \<^verbatim>\<open>json.dumps\<close>, \<^verbatim>\<open>str\<close> on a value that is not a string, and
  \<^verbatim>\<open>float\<close> on a string (\<open>None\<close> when it raises \<^verbatim>\<open>ValueError\<close>).
\<close>

record pylib =
  json_loads :: "string \<Rightarrow> pyval option"
  json_dumps :: "pyval \<Rightarrow> string"
  repr_of :: "pyval \<Rightarrow> string"
  float_of_str :: "string \<Rightarrow> rat option"

text \<open>Truthiness, as \<^verbatim>\<open>if x:\<close> and \<^verbatim>\<open>x or y\<close> test it.\<close>

fun truthy :: "pyval \<Rightarrow> bool" where
  "truthy PNone = False"
| "truthy (PBool b) = b"
| "truthy (PInt i) = (i \<noteq> 0)"
| "truthy (PFloat r) = (r \<noteq> 0)"
| "truthy (PStr s) = (s \<noteq> [])"
| "truthy (PList xs) = (xs \<noteq> [])"
| "truthy (PDict kvs) = (kvs \<noteq> [])"

definition py_or :: "pyval \<Rightarrow> pyval \<Rightarrow> pyval" where
  "py_or a b = (if truthy a then a else b)"

text \<open>\<^verbatim>\<open>isinstance(v, (int, float))\<close> followed by \<^verbatim>\<open>float(v)\<close>; \<^verbatim>\<open>bool\<close> is a subclass of \<^verbatim>\<open>int\<close>.\<close>

fun num_value :: "pyval \<Rightarrow> rat option" where
  "num_value (PInt i) = Some (of_int i)"
| "num_value (PFloat r) = Some r"
| "num_value (PBool b) = Some (if b then 1 else 0)"
| "num_value _ = None"

text \<open>\<^verbatim>\<open>float(v)\<close>; \<open>None\<close> stands for \<^verbatim>\<open>TypeError\<close> or \<^verbatim>\<open>ValueError\<close>, which every caller catches together.\<close>

fun py_float :: "pylib \<Rightarrow> pyval \<Rightarrow> rat option" where
  "py_float lib (PStr s) = float_of_str lib s"
| "py_float lib v = num_value v"

fun py_str :: "pylib \<Rightarrow> pyval \<Rightarrow> string" where
  "py_str lib (PStr s) = s"
| "py_str lib v = repr_of lib v"

text \<open>\<^verbatim>\<open>d.get(k)\<close> and \<^verbatim>\<open>d.get(k, default)\<close>.\<close>

definition dict_get :: "(string \<times> pyval) list \<Rightarrow> string \<Rightarrow> pyval \<Rightarrow> pyval" where
  "dict_get kvs k dflt = (case map_of kvs k of None \<Rightarrow> dflt | Some v \<Rightarrow> v)"

text \<open>\<^verbatim>\<open>d[k] = v\<close> on a dict: an existing key keeps its place, a new key goes last.\<close>

fun dict_set :: "string \<Rightarrow> pyval \<Rightarrow> (string \<times> pyval) list \<Rightarrow> (string \<times> pyval) list" where
  "dict_set k v [] = [(k, v)]"
| "dict_set k v (p # ps) = (if fst p = k then (k, v) # ps else p # dict_set k v ps)"

text \<open>\<^verbatim>\<open>d[k] = v\<close> on any value: only a dict supports item assignment by a string key.\<close>

fun setitem :: "string \<Rightarrow> pyval \<Rightarrow> pyval \<Rightarrow> exn + pyval" where
  "setitem k v (PDict kvs) = Inr (PDict (dict_set k v kvs))"
| "setitem k v _ = Inl TypeError"

section \<open>The store\<close>

text \<open>
  The three tables of \<^verbatim>\<open>_init_db\<close>. A table is the list of its rows in insertion order
  (the order of the autoincremented \<^verbatim>\<open>id\<close>). \<^verbatim>\<open>value\<close> and \<^verbatim>\<open>value_text\<close> are nullable.
  The store is taken to be open, and every insert to succeed.
\<close>

record metric_row =
  m_ts :: rat
  m_metric :: string
  m_value :: "rat option"
  m_value_text :: "string option"

record session_row =
  s_ts :: rat
  s_session_key :: string
  s_data :: string

record cron_row =
  c_ts :: rat
  c_job_id :: string
  c_data :: string

record history_db =
  metrics :: "metric_row list"
  sessions :: "session_row list"
  crons :: "cron_row list"

definition empty_db :: history_db where
  "empty_db = \<lparr>metrics = [], sessions = [], crons = []\<rparr>"

definition insert_metric :: "metric_row \<Rightarrow> history_db \<Rightarrow> history_db" where
  "insert_metric r db = db\<lparr>metrics := metrics db @ [r]\<rparr>"

subsection \<open>Metrics\<close>

text \<open>
  One iteration of the insert loops of \<^verbatim>\<open>record_metrics\<close>: a number goes to \<^verbatim>\<open>value\<close> with
  \<^verbatim>\<open>value_text\<close> NULL, anything else goes to \<^verbatim>\<open>value_text\<close> as \<^verbatim>\<open>str(value)\<close> with \<^verbatim>\<open>value\<close> NULL.
\<close>

definition metric_row_of :: "pylib \<Rightarrow> rat \<Rightarrow> string \<Rightarrow> pyval \<Rightarrow> metric_row" where
  "metric_row_of lib t name v =
     (case num_value v of
        Some x \<Rightarrow> \<lparr>m_ts = t, m_metric = name, m_value = Some x, m_value_text = None\<rparr>
      | None \<Rightarrow> \<lparr>m_ts = t, m_metric = name, m_value = None, m_value_text = Some (py_str lib v)\<rparr>)"

fun record_items :: "pylib \<Rightarrow> rat \<Rightarrow> (string \<times> pyval) list \<Rightarrow> history_db \<Rightarrow> history_db" where
  "record_items lib t [] db = db"
| "record_items lib t ((name, v) # kvs) db =
     record_items lib t kvs (insert_metric (metric_row_of lib t name v) db)"

text \<open>
  \<^verbatim>\<open>record_metrics(ts, data)\<close>. The first argument is either a timestamp (\<open>Inr\<close>) or, in the
  alternate calling form, a metric name (\<open>Inl\<close>), in which case the row is stamped with the
  clock \<open>now\<close>. In the normal form \<^verbatim>\<open>data.items()\<close> needs a dict.
\<close>

fun record_metrics ::
  "pylib \<Rightarrow> rat \<Rightarrow> string + rat \<Rightarrow> pyval \<Rightarrow> history_db \<Rightarrow> exn + history_db" where
  "record_metrics lib now (Inl metric_name) raw db =
     Inr (insert_metric (metric_row_of lib now metric_name raw) db)"
| "record_metrics lib now (Inr t) (PDict kvs) db = Inr (record_items lib t kvs db)"
| "record_metrics lib now (Inr t) _ db = Inl AttributeError"










subsection \<open>Sessions and crons\<close>

definition record_session :: "pylib \<Rightarrow> rat \<Rightarrow> string \<Rightarrow> pyval \<Rightarrow> history_db \<Rightarrow> history_db" where
  "record_session lib t session_key data db =
     db\<lparr>sessions := sessions db @
       [\<lparr>s_ts = t, s_session_key = session_key, s_data = json_dumps lib data\<rparr>]\<rparr>"

definition record_cron :: "pylib \<Rightarrow> rat \<Rightarrow> string \<Rightarrow> pyval \<Rightarrow> history_db \<Rightarrow> history_db" where
  "record_cron lib t job_id data db =
     db\<lparr>crons := crons db @ [\<lparr>c_ts = t, c_job_id = job_id, c_data = json_dumps lib data\<rparr>]\<rparr>"

text \<open>
  The two SELECT statements of \<^verbatim>\<open>query_sessions\<close>. The branch is chosen by
  \<^verbatim>\<open>if session_key:\<close>, which is false for \<^verbatim>\<open>None\<close> and for the empty string.
  \<^verbatim>\<open>ORDER BY ts ASC\<close> is a stable sort of the table on \<^verbatim>\<open>ts\<close> (rows with equal
  timestamps stay in insertion order, as a scan of the index on \<^verbatim>\<open>ts\<close> returns them).
\<close>

definition select_sessions ::
  "history_db \<Rightarrow> rat \<Rightarrow> rat \<Rightarrow> string option \<Rightarrow> session_row list" where
  "select_sessions db from_ts to_ts session_key =
     (case session_key of
        Some k \<Rightarrow>
          if k \<noteq> [] then
            sort_key s_ts (filter (\<lambda>r. from_ts \<le> s_ts r \<and> s_ts r \<le> to_ts \<and> s_session_key r = k)
              (sessions db))
          else sort_key s_ts (filter (\<lambda>r. from_ts \<le> s_ts r \<and> s_ts r \<le> to_ts) (sessions db))
      | None \<Rightarrow>
          sort_key s_ts (filter (\<lambda>r. from_ts \<le> s_ts r \<and> s_ts r \<le> to_ts) (sessions db)))"

definition select_crons ::
  "history_db \<Rightarrow> rat \<Rightarrow> rat \<Rightarrow> string option \<Rightarrow> cron_row list" where
  "select_crons db from_ts to_ts job_id =
     (case job_id of
        Some k \<Rightarrow>
          if k \<noteq> [] then
            sort_key c_ts (filter (\<lambda>r. from_ts \<le> c_ts r \<and> c_ts r \<le> to_ts \<and> c_job_id r = k)
              (crons db))
          else sort_key c_ts (filter (\<lambda>r. from_ts \<le> c_ts r \<and> c_ts r \<le> to_ts) (crons db))
      | None \<Rightarrow>
          sort_key c_ts (filter (\<lambda>r. from_ts \<le> c_ts r \<and> c_ts r \<le> to_ts) (crons db)))"

text \<open>
  \<^verbatim>\<open>try: d = json.loads(text) except (JSONDecodeError, TypeError): d = {"raw": text}\<close>
\<close>

definition decode_payload :: "pylib \<Rightarrow> string \<Rightarrow> pyval" where
  "decode_payload lib text =
     (case json_loads lib text of None \<Rightarrow> PDict [(''raw'', PStr text)] | Some d \<Rightarrow> d)"

text \<open>
  The body of the row loop. The two item assignments stand outside the \<^verbatim>\<open>try\<close>: on a
  decoded value that is not a dict they raise \<^verbatim>\<open>TypeError\<close>, which leaves the query.
\<close>

definition session_record :: "pylib \<Rightarrow> session_row \<Rightarrow> exn + pyval" where
  "session_record lib r =
     (case setitem ''_ts'' (PFloat (s_ts r)) (decode_payload lib (s_data r)) of
        Inl e \<Rightarrow> Inl e
      | Inr d \<Rightarrow> setitem ''_session_key'' (PStr (s_session_key r)) d)"

definition cron_record :: "pylib \<Rightarrow> cron_row \<Rightarrow> exn + pyval" where
  "cron_record lib r =
     (case setitem ''_ts'' (PFloat (c_ts r)) (decode_payload lib (c_data r)) of
        Inl e \<Rightarrow> Inl e
      | Inr d \<Rightarrow> setitem ''_job_id'' (PStr (c_job_id r)) d)"

fun convert_rows :: "('r \<Rightarrow> exn + pyval) \<Rightarrow> 'r list \<Rightarrow> exn + pyval list" where
  "convert_rows f [] = Inr []"
| "convert_rows f (r # rs) =
     (case f r of
        Inl e \<Rightarrow> Inl e
      | Inr d \<Rightarrow> (case convert_rows f rs of Inl e \<Rightarrow> Inl e | Inr ds \<Rightarrow> Inr (d # ds)))"

definition query_sessions ::
  "pylib \<Rightarrow> history_db \<Rightarrow> rat \<Rightarrow> rat \<Rightarrow> string option \<Rightarrow> exn + pyval" where
  "query_sessions lib db from_ts to_ts session_key =
     (case convert_rows (session_record lib) (select_sessions db from_ts to_ts session_key) of
        Inl e \<Rightarrow> Inl e
      | Inr ds \<Rightarrow> Inr (PDict [(''sessions'', PList ds)]))"

definition query_crons ::
  "pylib \<Rightarrow> history_db \<Rightarrow> rat \<Rightarrow> rat \<Rightarrow> string option \<Rightarrow> exn + pyval" where
  "query_crons lib db from_ts to_ts job_id =
     (case convert_rows (cron_record lib) (select_crons db from_ts to_ts job_id) of
        Inl e \<Rightarrow> Inl e
      | Inr ds \<Rightarrow> Inr (PDict [(''crons'', PList ds)]))"

subsection \<open>Snapshots\<close>

text \<open>
  \<^verbatim>\<open>query_snapshot\<close>: the rows named \<^verbatim>\<open>snapshot\<close> whose \<^verbatim>\<open>value_text\<close> is not NULL, ordered
  by \<^verbatim>\<open>ABS(ts - ?)\<close>, first row only. SQLite leaves the order of rows with equal keys open;
  the model takes the earliest inserted of them.
\<close>

definition snapshot_rows :: "history_db \<Rightarrow> metric_row list" where
  "snapshot_rows db =
     filter (\<lambda>r. m_metric r = ''snapshot'' \<and> m_value_text r \<noteq> None) (metrics db)"

definition query_snapshot :: "pylib \<Rightarrow> history_db \<Rightarrow> rat \<Rightarrow> pyval" where
  "query_snapshot lib db t =
     (case sort_key (\<lambda>r. \<bar>m_ts r - t\<bar>) (snapshot_rows db) of
        [] \<Rightarrow> PDict [(''snapshot'', PDict [])]
      | r # _ \<Rightarrow>
          (case m_value_text r of
             Some text \<Rightarrow> PDict [(''snapshot'', decode_payload lib text)]
           | None \<Rightarrow> PDict [(''snapshot'', PDict [(''raw'', PNone)])]))"

section \<open>The collector\<close>

text \<open>
  The gateway is the callable \<^verbatim>\<open>gw_invoke(method, params)\<close>: it raises or returns a
  document.
\<close>

datatype gw_result = Raises | Returns pyval

type_synonym gateway = "string \<Rightarrow> pyval \<Rightarrow> gw_result"

type_synonym cycle_state = "history_db \<times> (string \<times> pyval) list"

text \<open>\<^verbatim>\<open>_safe_float\<close>\<close>

definition safe_float :: "pylib \<Rightarrow> pyval \<Rightarrow> rat option" where
  "safe_float lib val = (case val of PNone \<Rightarrow> None | _ \<Rightarrow> py_float lib val)"

text \<open>
  \<^verbatim>\<open>try: body except Exception: pass\<close>. In each step of \<^verbatim>\<open>_collect\<close> the statements that
  can raise (the gateway call, then \<^verbatim>\<open>record_metrics\<close>) come before the step's first effect
  on the store or on \<^verbatim>\<open>all_data\<close>, so a step that raises leaves the state as it found it.
\<close>

definition try_except :: "cycle_state \<Rightarrow> exn + cycle_state \<Rightarrow> cycle_state" where
  "try_except st body = (case body of Inl e \<Rightarrow> st | Inr st' \<Rightarrow> st')"

definition invoke :: "gateway \<Rightarrow> string \<Rightarrow> pyval \<Rightarrow> exn + pyval" where
  "invoke gw method params =
     (case gw method params of Raises \<Rightarrow> Inl GatewayError | Returns v \<Rightarrow> Inr v)"

definition put_float :: "string \<Rightarrow> rat option \<Rightarrow> (string \<times> pyval) list \<Rightarrow> (string \<times> pyval) list" where
  "put_float k x d = (case x of None \<Rightarrow> d | Some y \<Rightarrow> dict_set k (PFloat y) d)"

definition session_status_body :: "pylib \<Rightarrow> gateway \<Rightarrow> rat \<Rightarrow> cycle_state \<Rightarrow> exn + cycle_state" where
  "session_status_body lib gw now st =
     (case invoke gw ''session_status'' (PDict []) of
        Inl e \<Rightarrow> Inl e
      | Inr status \<Rightarrow>
          (case status of
             PDict kvs \<Rightarrow>
               (let cost = safe_float lib (dict_get kvs ''cost_total'' PNone);
                    tok_in = safe_float lib (dict_get kvs ''tokens_in_total'' PNone);
                    tok_out = safe_float lib (dict_get kvs ''tokens_out_total'' PNone);
                    metrics_data =
                      put_float ''tokens_out_total'' tok_out
                        (put_float ''tokens_in_total'' tok_in
                          (put_float ''cost_total'' cost []))
                in if metrics_data \<noteq> [] then
                     (case record_metrics lib now (Inr now) (PDict metrics_data) (fst st) of
                        Inl e \<Rightarrow> Inl e
                      | Inr db' \<Rightarrow> Inr (db', dict_set ''session_status'' status (snd st)))
                   else Inr (fst st, dict_set ''session_status'' status (snd st)))
           | _ \<Rightarrow> Inr st))"

definition sessions_list_body :: "pylib \<Rightarrow> gateway \<Rightarrow> rat \<Rightarrow> cycle_state \<Rightarrow> exn + cycle_state" where
  "sessions_list_body lib gw now st =
     (case invoke gw ''sessions_list'' (PDict [(''limit'', PInt 50), (''messageLimit'', PInt 0)]) of
        Inl e \<Rightarrow> Inl e
      | Inr sessions_resp \<Rightarrow>
          (case sessions_resp of
             PDict kvs \<Rightarrow>
               (case dict_get kvs ''sessions'' (PList []) of
                  PList ss \<Rightarrow>
                    (case record_metrics lib now (Inr now)
                            (PDict [(''sessions_active'', PFloat (of_nat (length ss)))]) (fst st) of
                       Inl e \<Rightarrow> Inl e
                     | Inr db' \<Rightarrow> Inr (db', dict_set ''sessions_list'' sessions_resp (snd st)))
                | _ \<Rightarrow> Inr st)
           | _ \<Rightarrow> Inr st))"

text \<open>
  The body of the loop over the jobs. The inner \<^verbatim>\<open>try\<close> turns a last-run value that
  \<^verbatim>\<open>float\<close> rejects into the collection time.
\<close>

definition normalize_ts :: "rat \<Rightarrow> rat" where
  "normalize_ts x = (if x > 10 ^ 10 then x / 1000 else x)"

definition collect_job :: "pylib \<Rightarrow> rat \<Rightarrow> pyval \<Rightarrow> history_db \<Rightarrow> history_db" where
  "collect_job lib now job db =
     (case job of
        PDict kvs \<Rightarrow>
          (let job_id = py_or (py_or (dict_get kvs ''id'' PNone) (dict_get kvs ''name'' PNone))
                          (PStr ''unknown'');
               last_run = py_or (dict_get kvs ''lastRun'' PNone) (dict_get kvs ''last_run'' PNone)
           in if truthy last_run then
                (let last_ts = (case py_float lib last_run of
                                  Some x \<Rightarrow> normalize_ts x
                                | None \<Rightarrow> now)
                 in record_cron lib last_ts (py_str lib job_id) job db)
              else db)
      | _ \<Rightarrow> db)"

fun collect_jobs :: "pylib \<Rightarrow> rat \<Rightarrow> pyval list \<Rightarrow> history_db \<Rightarrow> history_db" where
  "collect_jobs lib now [] db = db"
| "collect_jobs lib now (job # jobs) db = collect_jobs lib now jobs (collect_job lib now job db)"

definition cron_body :: "pylib \<Rightarrow> gateway \<Rightarrow> rat \<Rightarrow> cycle_state \<Rightarrow> exn + cycle_state" where
  "cron_body lib gw now st =
     (case invoke gw ''cron'' (PDict [(''action'', PStr ''list'')]) of
        Inl e \<Rightarrow> Inl e
      | Inr cron_resp \<Rightarrow>
          (case cron_resp of
             PDict kvs \<Rightarrow>
               (let jobs = dict_get kvs ''jobs'' (dict_get kvs ''crons'' (PList []));
                    db' = (case jobs of PList js \<Rightarrow> collect_jobs lib now js (fst st) | _ \<Rightarrow> fst st)
                in Inr (db', dict_set ''cron'' cron_resp (snd st)))
           | _ \<Rightarrow> Inr st))"

definition snapshot_row :: "pylib \<Rightarrow> rat \<Rightarrow> (string \<times> pyval) list \<Rightarrow> metric_row" where
  "snapshot_row lib now all_data =
     \<lparr>m_ts = now, m_metric = ''snapshot'', m_value = None,
      m_value_text = Some (json_dumps lib (PDict all_data))\<rparr>"

definition snapshot_body :: "pylib \<Rightarrow> rat \<Rightarrow> cycle_state \<Rightarrow> exn + cycle_state" where
  "snapshot_body lib now st = Inr (insert_metric (snapshot_row lib now (snd st)) (fst st), snd st)"

text \<open>\<^verbatim>\<open>_collect\<close>: one cycle, the four steps in order, each inside its own handler.\<close>

definition collect_steps :: "pylib \<Rightarrow> gateway \<Rightarrow> rat \<Rightarrow> history_db \<Rightarrow> cycle_state" where
  "collect_steps lib gw now db =
     (let st0 = (db, []);
          st1 = try_except st0 (session_status_body lib gw now st0);
          st2 = try_except st1 (sessions_list_body lib gw now st1);
          st3 = try_except st2 (cron_body lib gw now st2)
      in try_except st3 (snapshot_body lib now st3))"

definition collect :: "pylib \<Rightarrow> gateway \<Rightarrow> rat \<Rightarrow> history_db \<Rightarrow> history_db" where
  "collect lib gw now db = fst (collect_steps lib gw now db)"

text \<open>
  \<^verbatim>\<open>_run\<close>. What the worker meets is a list of cycles: the gateway and the clock of the
  cycle, and whether the stop event is found set during the sleep that follows it. The
  stop event is found set at the head of the loop when the list is used up. The handler
  around \<^verbatim>\<open>self._collect()\<close> has nothing left to catch: \<open>collect\<close> has no exceptional result.
\<close>

fun run :: "pylib \<Rightarrow> (gateway \<times> rat \<times> bool) list \<Rightarrow> history_db \<Rightarrow> history_db" where
  "run lib [] db = db"
| "run lib ((gw, now, stop_set) # cycles) db =
     (let db' = collect lib gw now db in if stop_set then db' else run lib cycles db')"

subsection \<open>Lifecycle\<close>

text \<open>
  The collector object: its thread handle (threads are numbered as they are created),
  the stop event, and the threads of the process that are alive.
\<close>

record collector =
  thread :: "nat option"
  stop_event :: bool
  alive :: "nat set"
  created :: nat

definition new_collector :: collector where
  "new_collector = \<lparr>thread = None, stop_event = False, alive = {}, created = 0\<rparr>"

definition is_running :: "collector \<Rightarrow> bool" where
  "is_running c = (case thread c of None \<Rightarrow> False | Some t \<Rightarrow> t \<in> alive c)"

definition start :: "collector \<Rightarrow> collector" where
  "start c =
     (if is_running c then c
      else c\<lparr>stop_event := False, thread := Some (created c),
             alive := insert (created c) (alive c), created := Suc (created c)\<rparr>)"

section \<open>Vocabulary of the properties\<close>






text \<open>
  The rows a range query selects: inside the closed range and, when the filter is a
  non-empty string, with that key.
\<close>

definition key_matches :: "string option \<Rightarrow> string \<Rightarrow> bool" where
  "key_matches flt k = (case flt of None \<Rightarrow> True | Some s \<Rightarrow> s = [] \<or> k = s)"

definition session_selected :: "rat \<Rightarrow> rat \<Rightarrow> string option \<Rightarrow> session_row \<Rightarrow> bool" where
  "session_selected from_ts to_ts flt r =
     (from_ts \<le> s_ts r \<and> s_ts r \<le> to_ts \<and> key_matches flt (s_session_key r))"

definition cron_selected :: "rat \<Rightarrow> rat \<Rightarrow> string option \<Rightarrow> cron_row \<Rightarrow> bool" where
  "cron_selected from_ts to_ts flt r =
     (from_ts \<le> c_ts r \<and> c_ts r \<le> to_ts \<and> key_matches flt (c_job_id r))"

text \<open>The fallback record of a row whose text does not decode.\<close>

definition raw_record :: "string \<Rightarrow> rat \<Rightarrow> string \<Rightarrow> string \<Rightarrow> pyval" where
  "raw_record text t key_field k =
     PDict [(''raw'', PStr text), (''_ts'', PFloat t), (key_field, PStr k)]"

text \<open>\<^verbatim>\<open>isinstance(v, dict)\<close>, and the items of a dict.\<close>

definition is_dict :: "pyval \<Rightarrow> bool" where
  "is_dict v = (case v of PDict kvs \<Rightarrow> True | _ \<Rightarrow> False)"

definition items :: "pyval \<Rightarrow> (string \<times> pyval) list" where
  "items v = (case v of PDict kvs \<Rightarrow> kvs | _ \<Rightarrow> [])"

section \<open>Example stores\<close>


text \<open>
  A library for the examples. It agrees with Python on the texts and values the examples
  use: \<^verbatim>\<open>{}\<close> decodes to the empty dict, \<^verbatim>\<open>[1]\<close> to a list, and \<^verbatim>\<open>not json\<close> is rejected.
\<close>

definition lib0 :: pylib where
  "lib0 = \<lparr>json_loads = (\<lambda>s. if s = ''{}'' then Some (PDict [])
                            else if s = ''[1]'' then Some (PList [PInt 1]) else None),
           json_dumps = (\<lambda>v. if v = PDict [] then ''{}'' else ''{...}''),
           repr_of = (\<lambda>v. ''?''),
           float_of_str = (\<lambda>s. None)\<rparr>"


definition db2 :: history_db where
  "db2 = \<lparr>metrics = [],
     sessions = [\<lparr>s_ts = 20, s_session_key = ''b'', s_data = ''{}''\<rparr>,
                 \<lparr>s_ts = 10, s_session_key = ''a'', s_data = ''{}''\<rparr>],
     crons = [\<lparr>c_ts = 30, c_job_id = ''nightly'', c_data = ''{}''\<rparr>]\<rparr>"

definition corrupt_session :: session_row where
  "corrupt_session = \<lparr>s_ts = 15, s_session_key = ''a'', s_data = ''not json''\<rparr>"

definition corrupt_cron :: cron_row where
  "corrupt_cron = \<lparr>c_ts = 40, c_job_id = ''nightly'', c_data = ''not json''\<rparr>"

text \<open>A library that decodes two snapshot documents, and two stores with snapshot rows.\<close>

definition lib1 :: pylib where
  \<open>lib1 = \<lparr>json_loads = (\<lambda>s. if s = ''{"n": 1}'' then Some (PDict [(''n'', PInt 1)])
                            else if s = ''{"n": 2}'' then Some (PDict [(''n'', PInt 2)]) else None),
           json_dumps = (\<lambda>v. ''{...}''),
           repr_of = (\<lambda>v. ''?''),
           float_of_str = (\<lambda>s. None)\<rparr>\<close>

definition db3 :: history_db where
  \<open>db3 = \<lparr>metrics =
     [\<lparr>m_ts = 100, m_metric = ''snapshot'', m_value = None, m_value_text = Some ''{"n": 1}''\<rparr>,
      \<lparr>m_ts = 200, m_metric = ''snapshot'', m_value = None, m_value_text = Some ''{"n": 2}''\<rparr>],
     sessions = [], crons = []\<rparr>\<close>

definition db4 :: history_db where
  \<open>db4 = \<lparr>metrics =
     [\<lparr>m_ts = 100, m_metric = ''snapshot'', m_value = Some 1, m_value_text = None\<rparr>,
      \<lparr>m_ts = 200, m_metric = ''snapshot'', m_value = None, m_value_text = Some ''{"n": 2}''\<rparr>],
     sessions = [], crons = []\<rparr>\<close>



section \<open>Properties of the metrics queries\<close>



















section \<open>Properties of the collector\<close>




















section \<open>Properties of the session and cron queries\<close>

lemma select_sessions_eq:
  "select_sessions db f t flt = sort_key s_ts (filter (session_selected f t flt) (sessions db))"
  by (cases flt) (simp_all add: select_sessions_def session_selected_def [abs_def] key_matches_def)

lemma select_crons_eq:
  "select_crons db f t flt = sort_key c_ts (filter (cron_selected f t flt) (crons db))"
  by (cases flt) (simp_all add: select_crons_def cron_selected_def [abs_def] key_matches_def)

lemma convert_rows_Inr_iff:
  "convert_rows f xs = Inr ds \<longleftrightarrow>
     (\<forall>x\<in>set xs. \<exists>d. f x = Inr d) \<and> ds = map (\<lambda>x. projr (f x)) xs"
proof (induction xs arbitrary: ds)
  case Nil
  then show ?case by auto
next
  case (Cons x xs)
  show ?case
  proof (cases "f x")
    case (Inl e)
    then show ?thesis by auto
  next
    case fx: (Inr d)
    show ?thesis
    proof (cases "convert_rows f xs")
      case (Inl e)
      with Cons.IH[of "map (\<lambda>x. projr (f x)) xs"] fx show ?thesis by auto
    next
      case (Inr ds')
      with Cons.IH[of ds'] fx show ?thesis by auto
    qed
  qed
qed

lemma map_of_dict_set: "map_of (dict_set k v d) = (map_of d)(k \<mapsto> v)"
  by (induction d) auto

lemma session_record_dict:
  "decode_payload lib (s_data r) = PDict kvs \<Longrightarrow>
     session_record lib r =
       Inr (PDict (dict_set ''_session_key'' (PStr (s_session_key r))
                     (dict_set ''_ts'' (PFloat (s_ts r)) kvs)))"
  by (simp add: session_record_def)

lemma cron_record_dict:
  "decode_payload lib (c_data r) = PDict kvs \<Longrightarrow>
     cron_record lib r =
       Inr (PDict (dict_set ''_job_id'' (PStr (c_job_id r))
                     (dict_set ''_ts'' (PFloat (c_ts r)) kvs)))"
  by (simp add: cron_record_def)

lemma session_record_corrupt:
  "json_loads lib (s_data r) = None \<Longrightarrow>
     session_record lib r = Inr (raw_record (s_data r) (s_ts r) ''_session_key'' (s_session_key r))"
  by (simp add: session_record_def decode_payload_def raw_record_def)

lemma cron_record_corrupt:
  "json_loads lib (c_data r) = None \<Longrightarrow>
     cron_record lib r = Inr (raw_record (c_data r) (c_ts r) ''_job_id'' (c_job_id r))"
  by (simp add: cron_record_def decode_payload_def raw_record_def)

lemma convert_rows_insert:
  assumes ok: "f r = Inr d"
    and q: "convert_rows f (sort_key k (filter P (xs @ ys))) = Inr ds"
  shows "\<exists>ds'. convert_rows f (sort_key k (filter P (xs @ r # ys))) = Inr ds'
          \<and> mset ds' = mset ds + (if P r then {#d#} else {#})"
proof -
  let ?g = "\<lambda>x. projr (f x)"
  let ?rows = "sort_key k (filter P (xs @ ys))"
  let ?rows' = "sort_key k (filter P (xs @ r # ys))"
  from q have all: "\<forall>x\<in>set ?rows. \<exists>d. f x = Inr d" and ds: "ds = map ?g ?rows"
    by (simp_all add: convert_rows_Inr_iff)
  have "\<forall>x\<in>set ?rows'. \<exists>d. f x = Inr d"
    using all ok by auto
  then have c: "convert_rows f ?rows' = Inr (map ?g ?rows')"
    by (simp add: convert_rows_Inr_iff)
  have "mset (map ?g ?rows') = mset (map ?g ?rows) + (if P r then {#d#} else {#})"
    using ok by simp
  with c ds show ?thesis
    by blast
qed

lemma is_dict_iff: "is_dict v \<longleftrightarrow> (\<exists>kvs. v = PDict kvs)"
  by (cases v) (simp_all add: is_dict_def)

lemma query_rows_dict:
  assumes "\<forall>r\<in>set rows. is_dict (dec r)"
    and "\<And>r kvs. dec r = PDict kvs \<Longrightarrow> f r = Inr (PDict (aug r kvs))"
  shows "convert_rows f rows = Inr (map (\<lambda>r. PDict (aug r (items (dec r)))) rows)"
proof -
  have "f r = Inr (PDict (aug r (items (dec r))))" if "r \<in> set rows" for r
  proof -
    from that assms(1) obtain kvs where "dec r = PDict kvs"
      by (auto simp: is_dict_iff)
    with assms(2)[OF this] show ?thesis
      by (simp add: items_def)
  qed
  then show ?thesis
    by (simp add: convert_rows_Inr_iff)
qed

text \<open>
  C7, amended. Let the payload of every selected row decode to a dict (as the rows written
  by \<^verbatim>\<open>record_session\<close> and \<^verbatim>\<open>record_cron\<close> do) or not decode at all. Then
  \<^verbatim>\<open>query_sessions\<close> returns one record per stored row with \<open>from_ts \<le> ts \<le> to_ts\<close> whose key
  passes the filter (no filter, or the empty string: every key; a non-empty string: that
  key), each row once, in ascending order of timestamp; the record of a row is its decoded
  payload with \<^verbatim>\<open>_ts\<close> set to the stored timestamp and \<^verbatim>\<open>_session_key\<close> to the stored key, all other
  fields as stored. \<^verbatim>\<open>query_crons\<close> does the same with \<^verbatim>\<open>_job_id\<close>.
\<close>

theorem range_queries_augmented:
  assumes "\<forall>r\<in>set (sessions db). session_selected from_ts to_ts flt r
             \<longrightarrow> is_dict (decode_payload lib (s_data r))"
    and "\<forall>r\<in>set (crons db). cron_selected from_ts to_ts flt r
             \<longrightarrow> is_dict (decode_payload lib (c_data r))"
  shows "(\<exists>rows. query_sessions lib db from_ts to_ts flt =
            Inr (PDict [(''sessions'', PList (map (\<lambda>r. PDict
              (dict_set ''_session_key'' (PStr (s_session_key r))
                (dict_set ''_ts'' (PFloat (s_ts r)) (items (decode_payload lib (s_data r)))))) rows))])
          \<and> sorted (map s_ts rows)
          \<and> mset rows = mset (filter (session_selected from_ts to_ts flt) (sessions db)))
       \<and> (\<exists>rows. query_crons lib db from_ts to_ts flt =
            Inr (PDict [(''crons'', PList (map (\<lambda>r. PDict
              (dict_set ''_job_id'' (PStr (c_job_id r))
                (dict_set ''_ts'' (PFloat (c_ts r)) (items (decode_payload lib (c_data r)))))) rows))])
          \<and> sorted (map c_ts rows)
          \<and> mset rows = mset (filter (cron_selected from_ts to_ts flt) (crons db)))
       \<and> (\<forall>kvs k v1 v2. map_of (dict_set k v2 (dict_set ''_ts'' v1 kvs))
             = (map_of kvs)(''_ts'' \<mapsto> v1, k \<mapsto> v2))"
proof (intro conjI)
  let ?rows = "select_sessions db from_ts to_ts flt"
  have "\<forall>r\<in>set ?rows. is_dict (decode_payload lib (s_data r))"
    using assms(1) by (simp add: select_sessions_eq)
  from query_rows_dict[where f = "session_record lib" and dec = "\<lambda>r. decode_payload lib (s_data r)",
      OF this session_record_dict]
  have "query_sessions lib db from_ts to_ts flt =
            Inr (PDict [(''sessions'', PList (map (\<lambda>r. PDict
              (dict_set ''_session_key'' (PStr (s_session_key r))
                (dict_set ''_ts'' (PFloat (s_ts r)) (items (decode_payload lib (s_data r)))))) ?rows))])"
    by (simp add: query_sessions_def)
  moreover have "sorted (map s_ts ?rows)"
    by (simp add: select_sessions_eq)
  moreover have "mset ?rows = mset (filter (session_selected from_ts to_ts flt) (sessions db))"
    by (simp add: select_sessions_eq)
  ultimately show "\<exists>rows. query_sessions lib db from_ts to_ts flt =
            Inr (PDict [(''sessions'', PList (map (\<lambda>r. PDict
              (dict_set ''_session_key'' (PStr (s_session_key r))
                (dict_set ''_ts'' (PFloat (s_ts r)) (items (decode_payload lib (s_data r)))))) rows))])
          \<and> sorted (map s_ts rows)
          \<and> mset rows = mset (filter (session_selected from_ts to_ts flt) (sessions db))"
    by blast
next
  let ?rows = "select_crons db from_ts to_ts flt"
  have "\<forall>r\<in>set ?rows. is_dict (decode_payload lib (c_data r))"
    using assms(2) by (simp add: select_crons_eq)
  from query_rows_dict[where f = "cron_record lib" and dec = "\<lambda>r. decode_payload lib (c_data r)",
      OF this cron_record_dict]
  have "query_crons lib db from_ts to_ts flt =
            Inr (PDict [(''crons'', PList (map (\<lambda>r. PDict
              (dict_set ''_job_id'' (PStr (c_job_id r))
                (dict_set ''_ts'' (PFloat (c_ts r)) (items (decode_payload lib (c_data r)))))) ?rows))])"
    by (simp add: query_crons_def)
  moreover have "sorted (map c_ts ?rows)"
    by (simp add: select_crons_eq)
  moreover have "mset ?rows = mset (filter (cron_selected from_ts to_ts flt) (crons db))"
    by (simp add: select_crons_eq)
  ultimately show "\<exists>rows. query_crons lib db from_ts to_ts flt =
            Inr (PDict [(''crons'', PList (map (\<lambda>r. PDict
              (dict_set ''_job_id'' (PStr (c_job_id r))
                (dict_set ''_ts'' (PFloat (c_ts r)) (items (decode_payload lib (c_data r)))))) rows))])
          \<and> sorted (map c_ts rows)
          \<and> mset rows = mset (filter (cron_selected from_ts to_ts flt) (crons db))"
    by blast
next
  show "\<forall>kvs k v1 v2. map_of (dict_set k v2 (dict_set ''_ts'' v1 kvs))
             = (map_of kvs)(''_ts'' \<mapsto> v1, k \<mapsto> v2)"
    by (simp add: map_of_dict_set)
qed

lemma sessions_db2_all:
  "query_sessions lib0 db2 0 100 None =
     Inr (PDict [(''sessions'', PList
       [PDict [(''_ts'', PFloat 10), (''_session_key'', PStr ''a'')],
        PDict [(''_ts'', PFloat 20), (''_session_key'', PStr ''b'')]])])"
  by (simp add: query_sessions_def select_sessions_def db2_def session_record_def
        decode_payload_def lib0_def)

text \<open>
  C7 (as stated in the specification, for every optional key filter). With the empty
  string as the filter the query is not restricted to the rows whose key is the empty
  string: on \<open>db2\<close>, whose two session rows have the keys \<^verbatim>\<open>a\<close> and \<^verbatim>\<open>b\<close>, it returns both.
\<close>

theorem query_sessions_empty_filter_unrestricted:
  "query_sessions lib0 db2 0 100 (Some '''') =
     Inr (PDict [(''sessions'', PList
       [PDict [(''_ts'', PFloat 10), (''_session_key'', PStr ''a'')],
        PDict [(''_ts'', PFloat 20), (''_session_key'', PStr ''b'')]])])"
  by (simp add: query_sessions_def select_sessions_def db2_def session_record_def
        decode_payload_def lib0_def)

lemma sessions_db2_a:
  "query_sessions lib0 db2 0 100 (Some ''a'') =
     Inr (PDict [(''sessions'', PList
       [PDict [(''_ts'', PFloat 10), (''_session_key'', PStr ''a'')]])])"
  by (simp add: query_sessions_def select_sessions_def db2_def session_record_def
        decode_payload_def lib0_def)


lemma select_sessions_table:
  "select_sessions (db\<lparr>sessions := rows\<rparr>) f t flt =
     sort_key s_ts (filter (session_selected f t flt) rows)"
  by (simp add: select_sessions_eq)

lemma select_crons_table:
  "select_crons (db\<lparr>crons := rows\<rparr>) f t flt =
     sort_key c_ts (filter (cron_selected f t flt) rows)"
  by (simp add: select_crons_eq)

lemma query_sessions_Inr:
  "query_sessions lib db f t flt = Inr (PDict [(''sessions'', PList recs)]) \<longleftrightarrow>
     convert_rows (session_record lib) (select_sessions db f t flt) = Inr recs"
  by (simp add: query_sessions_def split: sum.splits)

lemma query_crons_Inr:
  "query_crons lib db f t flt = Inr (PDict [(''crons'', PList recs)]) \<longleftrightarrow>
     convert_rows (cron_record lib) (select_crons db f t flt) = Inr recs"
  by (simp add: query_crons_def split: sum.splits)

text \<open>
  C2. A session row whose stored text \<^verbatim>\<open>json.loads\<close> rejects is turned into the record
  \<^verbatim>\<open>{"raw": text, "_ts": ts, "_session_key": key}\<close>, and adding such a row anywhere in a table
  on which a range query succeeds leaves the query succeeding: it returns the records it
  returned before, and the raw record of the new row when the row is in the range (and
  passes the filter). The same holds for cron rows and \<^verbatim>\<open>query_crons\<close>, with \<^verbatim>\<open>_job_id\<close>.
\<close>

theorem corrupt_row_resilience:
  "(json_loads lib (s_data r) = None \<longrightarrow>
      session_record lib r =
        Inr (raw_record (s_data r) (s_ts r) ''_session_key'' (s_session_key r))
      \<and> (\<forall>recs. query_sessions lib (db\<lparr>sessions := before @ after\<rparr>) from_ts to_ts flt =
                  Inr (PDict [(''sessions'', PList recs)]) \<longrightarrow>
           (\<exists>recs'. query_sessions lib (db\<lparr>sessions := before @ r # after\<rparr>) from_ts to_ts flt =
                  Inr (PDict [(''sessions'', PList recs')])
              \<and> mset recs' = mset recs +
                  (if session_selected from_ts to_ts flt r
                   then {#raw_record (s_data r) (s_ts r) ''_session_key'' (s_session_key r)#}
                   else {#}))))
   \<and> (json_loads lib (c_data c) = None \<longrightarrow>
      cron_record lib c = Inr (raw_record (c_data c) (c_ts c) ''_job_id'' (c_job_id c))
      \<and> (\<forall>recs. query_crons lib (db\<lparr>crons := cbefore @ cafter\<rparr>) from_ts to_ts flt =
                  Inr (PDict [(''crons'', PList recs)]) \<longrightarrow>
           (\<exists>recs'. query_crons lib (db\<lparr>crons := cbefore @ c # cafter\<rparr>) from_ts to_ts flt =
                  Inr (PDict [(''crons'', PList recs')])
              \<and> mset recs' = mset recs +
                  (if cron_selected from_ts to_ts flt c
                   then {#raw_record (c_data c) (c_ts c) ''_job_id'' (c_job_id c)#}
                   else {#}))))"
proof (intro conjI impI allI)
  assume "json_loads lib (s_data r) = None"
  then show "session_record lib r =
        Inr (raw_record (s_data r) (s_ts r) ''_session_key'' (s_session_key r))"
    by (rule session_record_corrupt)
next
  fix recs
  assume "json_loads lib (s_data r) = None"
    and "query_sessions lib (db\<lparr>sessions := before @ after\<rparr>) from_ts to_ts flt =
                  Inr (PDict [(''sessions'', PList recs)])"
  then show "\<exists>recs'. query_sessions lib (db\<lparr>sessions := before @ r # after\<rparr>) from_ts to_ts flt =
                  Inr (PDict [(''sessions'', PList recs')])
              \<and> mset recs' = mset recs +
                  (if session_selected from_ts to_ts flt r
                   then {#raw_record (s_data r) (s_ts r) ''_session_key'' (s_session_key r)#}
                   else {#})"
    unfolding query_sessions_Inr select_sessions_table
    by (intro convert_rows_insert session_record_corrupt)
next
  assume "json_loads lib (c_data c) = None"
  then show "cron_record lib c = Inr (raw_record (c_data c) (c_ts c) ''_job_id'' (c_job_id c))"
    by (rule cron_record_corrupt)
next
  fix recs
  assume "json_loads lib (c_data c) = None"
    and "query_crons lib (db\<lparr>crons := cbefore @ cafter\<rparr>) from_ts to_ts flt =
                  Inr (PDict [(''crons'', PList recs)])"
  then show "\<exists>recs'. query_crons lib (db\<lparr>crons := cbefore @ c # cafter\<rparr>) from_ts to_ts flt =
                  Inr (PDict [(''crons'', PList recs')])
              \<and> mset recs' = mset recs +
                  (if cron_selected from_ts to_ts flt c
                   then {#raw_record (c_data c) (c_ts c) ''_job_id'' (c_job_id c)#}
                   else {#})"
    unfolding query_crons_Inr select_crons_table
    by (intro convert_rows_insert cron_record_corrupt)
qed

theorem corrupt_row_resilience_witness:
  "json_loads lib0 (s_data corrupt_session) = None
   \<and> json_loads lib0 (c_data corrupt_cron) = None
   \<and> query_sessions lib0 (db2\<lparr>sessions := sessions db2 @ corrupt_session # []\<rparr>) 0 100 None =
       Inr (PDict [(''sessions'', PList
         [PDict [(''_ts'', PFloat 10), (''_session_key'', PStr ''a'')],
          PDict [(''raw'', PStr ''not json''), (''_ts'', PFloat 15), (''_session_key'', PStr ''a'')],
          PDict [(''_ts'', PFloat 20), (''_session_key'', PStr ''b'')]])])
   \<and> (\<exists>recs'. query_crons lib0 (db2\<lparr>crons := crons db2 @ corrupt_cron # []\<rparr>) 0 100 None =
          Inr (PDict [(''crons'', PList recs')])
        \<and> mset recs' = {#PDict [(''_ts'', PFloat 30), (''_job_id'', PStr ''nightly'')],
                         raw_record ''not json'' 40 ''_job_id'' ''nightly''#})"
proof -
  have s: "json_loads lib0 (s_data corrupt_session) = None"
    and c: "json_loads lib0 (c_data corrupt_cron) = None"
    by (simp_all add: lib0_def corrupt_session_def corrupt_cron_def)
  have q: "query_crons lib0 (db2\<lparr>crons := crons db2 @ []\<rparr>) 0 100 None =
       Inr (PDict [(''crons'', PList [PDict [(''_ts'', PFloat 30), (''_job_id'', PStr ''nightly'')]])])"
    by (simp add: query_crons_def select_crons_def db2_def cron_record_def
          decode_payload_def lib0_def)
  have e: "query_sessions lib0 (db2\<lparr>sessions := sessions db2 @ corrupt_session # []\<rparr>) 0 100 None =
       Inr (PDict [(''sessions'', PList
         [PDict [(''_ts'', PFloat 10), (''_session_key'', PStr ''a'')],
          PDict [(''raw'', PStr ''not json''), (''_ts'', PFloat 15), (''_session_key'', PStr ''a'')],
          PDict [(''_ts'', PFloat 20), (''_session_key'', PStr ''b'')]])])"
    by (simp add: query_sessions_def select_sessions_def db2_def session_record_def
          decode_payload_def lib0_def corrupt_session_def)
  have sel: "cron_selected 0 100 None corrupt_cron"
    by (simp add: cron_selected_def key_matches_def corrupt_cron_def)
  from corrupt_row_resilience [where lib = lib0 and r = corrupt_session and c = corrupt_cron
         and db = db2 and before = "sessions db2" and after = "[]" and cbefore = "crons db2"
         and cafter = "[]" and from_ts = 0 and to_ts = 100 and flt = None] c q sel
  have "\<exists>recs'. query_crons lib0 (db2\<lparr>crons := crons db2 @ corrupt_cron # []\<rparr>) 0 100 None =
          Inr (PDict [(''crons'', PList recs')])
        \<and> mset recs' = {#PDict [(''_ts'', PFloat 30), (''_job_id'', PStr ''nightly'')],
                         raw_record ''not json'' 40 ''_job_id'' ''nightly''#}"
    by (auto simp: corrupt_cron_def)
  with s c e show ?thesis
    by blast
qed

theorem range_queries_augmented_witness:
  "\<exists>rows. query_sessions lib0 db2 0 100 (Some ''a'') =
       Inr (PDict [(''sessions'', PList (map (\<lambda>r. PDict
              (dict_set ''_session_key'' (PStr (s_session_key r))
                (dict_set ''_ts'' (PFloat (s_ts r)) (items (decode_payload lib0 (s_data r)))))) rows))])
      \<and> sorted (map s_ts rows)
      \<and> mset rows = {#\<lparr>s_ts = 10, s_session_key = ''a'', s_data = ''{}''\<rparr>#}"
proof -
  have a: "\<forall>r\<in>set (sessions db2). session_selected 0 100 (Some ''a'') r
             \<longrightarrow> is_dict (decode_payload lib0 (s_data r))"
    by (simp add: db2_def decode_payload_def lib0_def is_dict_def)
  have b: "\<forall>r\<in>set (crons db2). cron_selected 0 100 (Some ''a'') r
             \<longrightarrow> is_dict (decode_payload lib0 (c_data r))"
    by (simp add: db2_def decode_payload_def lib0_def is_dict_def)
  have m: "mset (filter (session_selected 0 100 (Some ''a'')) (sessions db2)) =
             {#\<lparr>s_ts = 10, s_session_key = ''a'', s_data = ''{}''\<rparr>#}"
    by (simp add: db2_def session_selected_def key_matches_def)
  from range_queries_augmented [OF a b] show ?thesis
    unfolding m by blast
qed

section \<open>Properties of the snapshot query\<close>

lemma sort_key_hd_min:
  assumes "sort_key k xs = r # rest"
  shows "r \<in> set xs \<and> (\<forall>x\<in>set xs. k r \<le> k x)"
proof -
  have "set (sort_key k xs) = set xs" by simp
  with assms have s: "set xs = insert r (set rest)" by auto
  have "sorted (map k (sort_key k xs))" by simp
  with assms have "\<forall>x\<in>set rest. k r \<le> k x" by auto
  with s show ?thesis by auto
qed

text \<open>
  C3, amended. For every query timestamp \<open>t\<close>: when no row is named \<^verbatim>\<open>snapshot\<close> and has a
  text value, \<^verbatim>\<open>query_snapshot\<close> returns the empty result \<^verbatim>\<open>{"snapshot": {}}\<close>; otherwise it
  returns the decoded text (wrapped as \<^verbatim>\<open>{"raw": text}\<close> when the text does not decode) of
  a row named \<^verbatim>\<open>snapshot\<close> with a text value whose timestamp has the least absolute
  difference from \<open>t\<close> among all such rows. With snapshots at ts=100 and ts=200 only, the
  query at 140 returns the first and the query at 160 the second, as \<open>db3\<close> shows below.
\<close>

theorem query_snapshot_nearest:
  "((\<forall>r\<in>set (metrics db). \<not> (m_metric r = ''snapshot'' \<and> m_value_text r \<noteq> None))
      \<longrightarrow> query_snapshot lib db t = PDict [(''snapshot'', PDict [])])
   \<and> ((\<exists>r\<in>set (metrics db). m_metric r = ''snapshot'' \<and> m_value_text r \<noteq> None)
      \<longrightarrow> (\<exists>r text. r \<in> set (metrics db) \<and> m_metric r = ''snapshot''
             \<and> m_value_text r = Some text
             \<and> (\<forall>r'\<in>set (metrics db). m_metric r' = ''snapshot'' \<and> m_value_text r' \<noteq> None
                   \<longrightarrow> \<bar>m_ts r - t\<bar> \<le> \<bar>m_ts r' - t\<bar>)
             \<and> query_snapshot lib db t = PDict [(''snapshot'', decode_payload lib text)]))"
proof (intro conjI impI)
  assume "\<forall>r\<in>set (metrics db). \<not> (m_metric r = ''snapshot'' \<and> m_value_text r \<noteq> None)"
  then have "snapshot_rows db = []"
    by (auto simp: snapshot_rows_def filter_empty_conv)
  then show "query_snapshot lib db t = PDict [(''snapshot'', PDict [])]"
    by (simp add: query_snapshot_def)
next
  assume "\<exists>r\<in>set (metrics db). m_metric r = ''snapshot'' \<and> m_value_text r \<noteq> None"
  then have "snapshot_rows db \<noteq> []"
    by (auto simp: snapshot_rows_def filter_empty_conv)
  then have "sort_key (\<lambda>r. \<bar>m_ts r - t\<bar>) (snapshot_rows db) \<noteq> []"
    by (metis length_sort list.size(3) length_0_conv)
  then obtain r rest where srt: "sort_key (\<lambda>r. \<bar>m_ts r - t\<bar>) (snapshot_rows db) = r # rest"
    by (cases "sort_key (\<lambda>r. \<bar>m_ts r - t\<bar>) (snapshot_rows db)") auto
  from sort_key_hd_min[OF srt]
  have mem: "r \<in> set (snapshot_rows db)"
    and least: "\<forall>x\<in>set (snapshot_rows db). \<bar>m_ts r - t\<bar> \<le> \<bar>m_ts x - t\<bar>"
    by simp_all
  from mem have r1: "r \<in> set (metrics db)" and r2: "m_metric r = ''snapshot''"
    and "m_value_text r \<noteq> None"
    by (auto simp: snapshot_rows_def)
  then obtain body where r3: "m_value_text r = Some body"
    by auto
  from least have "\<forall>r'\<in>set (metrics db). m_metric r' = ''snapshot'' \<and> m_value_text r' \<noteq> None
                   \<longrightarrow> \<bar>m_ts r - t\<bar> \<le> \<bar>m_ts r' - t\<bar>"
    by (simp add: snapshot_rows_def)
  moreover have "query_snapshot lib db t = PDict [(''snapshot'', decode_payload lib body)]"
    by (simp add: query_snapshot_def srt r3)
  ultimately show "\<exists>r text. r \<in> set (metrics db) \<and> m_metric r = ''snapshot''
             \<and> m_value_text r = Some text
             \<and> (\<forall>r'\<in>set (metrics db). m_metric r' = ''snapshot'' \<and> m_value_text r' \<noteq> None
                   \<longrightarrow> \<bar>m_ts r - t\<bar> \<le> \<bar>m_ts r' - t\<bar>)
             \<and> query_snapshot lib db t = PDict [(''snapshot'', decode_payload lib text)]"
    using r1 r2 r3 by blast
qed

lemma snap_db3:
  \<open>query_snapshot lib1 db3 140 = PDict [(''snapshot'', PDict [(''n'', PInt 1)])]\<close>
  \<open>query_snapshot lib1 db3 160 = PDict [(''snapshot'', PDict [(''n'', PInt 2)])]\<close>
  by (simp_all add: query_snapshot_def snapshot_rows_def db3_def decode_payload_def lib1_def)

lemma db4_written_by_record_metrics:
  \<open>record_metrics lib1 0 (Inr 100) (PDict [(''snapshot'', PInt 1)]) empty_db =
     Inr \<lparr>metrics = [\<lparr>m_ts = 100, m_metric = ''snapshot'', m_value = Some 1, m_value_text = None\<rparr>],
          sessions = [], crons = []\<rparr>
   \<and> record_metrics lib1 200 (Inl ''snapshot'') (PStr ''{"n": 2}'')
       \<lparr>metrics = [\<lparr>m_ts = 100, m_metric = ''snapshot'', m_value = Some 1, m_value_text = None\<rparr>],
        sessions = [], crons = []\<rparr> = Inr db4\<close>
  by (simp add: insert_metric_def metric_row_of_def empty_db_def db4_def)

text \<open>
  C3 (as stated in the specification, over all rows named \<^verbatim>\<open>snapshot\<close>). \<open>db4\<close> holds a
  numeric row named \<^verbatim>\<open>snapshot\<close> at ts=100, as \<^verbatim>\<open>record_metrics(100, {"snapshot": 1})\<close> writes
  it, and a text snapshot at ts=200. Queried at t=100 the store returns the snapshot of
  ts=200: the row at distance 0 is not considered, because the SQL keeps only the rows
  whose \<^verbatim>\<open>value_text\<close> is not NULL.
\<close>

theorem query_snapshot_skips_numeric_row:
  \<open>query_snapshot lib1 db4 100 = PDict [(''snapshot'', PDict [(''n'', PInt 2)])]\<close>
  by (simp add: query_snapshot_def snapshot_rows_def db4_def decode_payload_def lib1_def)

theorem query_snapshot_nearest_witness:
  "query_snapshot lib1 empty_db 140 = PDict [(''snapshot'', PDict [])]
   \<and> query_snapshot lib1 db3 140 = PDict [(''snapshot'', PDict [(''n'', PInt 1)])]
   \<and> query_snapshot lib1 db3 160 = PDict [(''snapshot'', PDict [(''n'', PInt 2)])]
   \<and> (\<exists>r body. r \<in> set (metrics db3) \<and> m_metric r = ''snapshot''
         \<and> m_value_text r = Some body
         \<and> (\<forall>r'\<in>set (metrics db3). m_metric r' = ''snapshot'' \<and> m_value_text r' \<noteq> None
               \<longrightarrow> \<bar>m_ts r - 160\<bar> \<le> \<bar>m_ts r' - 160\<bar>)
         \<and> query_snapshot lib1 db3 160 = PDict [(''snapshot'', decode_payload lib1 body)])"
proof -
  have none: "\<forall>r\<in>set (metrics empty_db). \<not> (m_metric r = ''snapshot'' \<and> m_value_text r \<noteq> None)"
    by (simp add: empty_db_def)
  have some: "\<exists>r\<in>set (metrics db3). m_metric r = ''snapshot'' \<and> m_value_text r \<noteq> None"
    by (simp add: db3_def)
  from query_snapshot_nearest [of empty_db lib1 140] none
  have "query_snapshot lib1 empty_db 140 = PDict [(''snapshot'', PDict [])]"
    by blast
  moreover from query_snapshot_nearest [of db3 lib1 160] some
  have "\<exists>r body. r \<in> set (metrics db3) \<and> m_metric r = ''snapshot''
         \<and> m_value_text r = Some body
         \<and> (\<forall>r'\<in>set (metrics db3). m_metric r' = ''snapshot'' \<and> m_value_text r' \<noteq> None
               \<longrightarrow> \<bar>m_ts r - 160\<bar> \<le> \<bar>m_ts r' - 160\<bar>)
         \<and> query_snapshot lib1 db3 160 = PDict [(''snapshot'', decode_payload lib1 body)]"
    by blast
  ultimately show ?thesis
    using snap_db3 by blast
qed

section \<open>Isolation of the steps of a collection cycle\<close>












section \<open>Cron records and the lifecycle of the collector\<close>











text \<open>
  C9. \<^verbatim>\<open>start()\<close> is idempotent: a second call in a row changes nothing, because after the
  first the worker is running; on a running collector \<^verbatim>\<open>start()\<close> is a no-op; the second
  call creates no thread; and when no thread other than the collector's own was alive
  before, exactly one worker is alive after the two calls.
\<close>

theorem start_idempotent:
  "start (start c) = start c
   \<and> is_running (start c)
   \<and> (is_running c \<longrightarrow> start c = c)
   \<and> created (start (start c)) = created (start c)
   \<and> (alive c \<subseteq> set_option (thread c) \<longrightarrow>
        alive (start c) \<subseteq> set_option (thread (start c))
        \<and> card (alive (start (start c))) = 1)
   \<and> alive (start (start new_collector)) = {0}"
proof -
  have run: "is_running (start c)" for c
    by (simp add: start_def is_running_def)
  then have idem: "start (start c) = start c" for c
    by (simp add: start_def [of "start c"])
  have one: "card (alive (start c)) = 1" if "alive c \<subseteq> set_option (thread c)"
  proof (cases "is_running c")
    case True
    with that have "alive c = {the (thread c)}"
      by (auto simp: is_running_def split: option.splits)
    with True show ?thesis
      by (simp add: start_def)
  next
    case False
    with that have "alive c = {}"
      by (auto simp: is_running_def split: option.splits)
    with False show ?thesis
      by (simp add: start_def)
  qed
  have inv: "alive (start c) \<subseteq> set_option (thread (start c))"
    if "alive c \<subseteq> set_option (thread c)"
  proof (cases "is_running c")
    case True
    with that show ?thesis by (simp add: start_def)
  next
    case False
    with that have "alive c = {}"
      by (auto simp: is_running_def split: option.splits)
    with False show ?thesis
      by (simp add: start_def)
  qed
  have noop: "start c = c" if "is_running c"
    using that by (simp add: start_def)
  have fresh: "alive (start new_collector) = {0}"
    by (simp add: start_def is_running_def new_collector_def)
  from run idem one inv noop fresh show ?thesis
    by simp
qed

theorem start_idempotent_witness:
  "alive new_collector \<subseteq> set_option (thread new_collector)
   \<and> card (alive (start (start new_collector))) = 1
   \<and> start (start new_collector) =
       \<lparr>thread = Some 0, stop_event = False, alive = {0}, created = 1\<rparr>"
proof -
  have a: "alive new_collector \<subseteq> set_option (thread new_collector)"
    by (simp add: new_collector_def)
  have s: "start new_collector = \<lparr>thread = Some 0, stop_event = False, alive = {0}, created = 1\<rparr>"
    by (simp add: start_def is_running_def new_collector_def)
  from start_idempotent [of new_collector] a s show ?thesis
    by simp
qed

end
